theory Spec2Isabelle
  imports Main
begin

section \<open>Token management of the Outlook MCP server (server.js)\<close>

text \<open>
  The development embeds the token management of \<^verbatim>\<open>server.js\<close>: the module variable
  \<^verbatim>\<open>tokenCache\<close>, the functions \<^verbatim>\<open>loadTokenCache\<close>, \<^verbatim>\<open>saveTokenCache\<close> and
  \<^verbatim>\<open>getAccessToken\<close>, and the handler of the tool \<^verbatim>\<open>outlook_auth\<close>.

  Everything outside the program is an input of the model: the clock reading of
  \<^verbatim>\<open>new Date()\<close>, the outcome of each MSAL call and the outcome of each
  \<^verbatim>\<open>writeFileSync\<close>. Everything the program does to the outside is recorded, in order,
  in a trace.
\<close>

subsection \<open>JavaScript values\<close>

text \<open>
  The value of a token property. A property that the object does not have reads as
  \<^verbatim>\<open>undefined\<close>, so an absent property and one holding \<^verbatim>\<open>undefined\<close> are the same
  \<open>Undefined\<close> here.
\<close>

datatype tokval = Undefined | Null | Str string

text \<open>
  The value of the property \<^verbatim>\<open>expiresOn\<close>. \<open>DateObj t\<close> is a \<^verbatim>\<open>Date\<close> object for the
  instant \<open>t\<close> (milliseconds since the epoch), as MSAL returns it; \<open>InvalidDate\<close> is a
  \<^verbatim>\<open>Date\<close> object whose time value is \<^verbatim>\<open>NaN\<close> (a \<^verbatim>\<open>Date\<close> has no instant further than
  8.64e15 ms from the epoch: such an object is \<open>InvalidDate\<close>); \<open>IsoString t\<close> is a
  string that \<^verbatim>\<open>new Date\<close> reads as the instant \<open>t\<close>, as \<^verbatim>\<open>JSON.stringify\<close> writes a
  \<^verbatim>\<open>Date\<close>; \<open>BadString\<close> is a non-empty string that \<^verbatim>\<open>new Date\<close> cannot read.
\<close>

datatype dateval = DUndefined | DNull | DateObj int | InvalidDate | IsoString int | BadString

text \<open>
  JavaScript truthiness: \<^verbatim>\<open>undefined\<close>, \<^verbatim>\<open>null\<close> and the empty string are falsy; an
  object is truthy, an invalid \<^verbatim>\<open>Date\<close> too.
\<close>

fun truthy :: "tokval \<Rightarrow> bool" where
  "truthy Undefined = False"
| "truthy Null = False"
| "truthy (Str s) = (s \<noteq> [])"

fun truthy_date :: "dateval \<Rightarrow> bool" where
  "truthy_date DUndefined = False"
| "truthy_date DNull = False"
| "truthy_date (DateObj t) = True"
| "truthy_date InvalidDate = True"
| "truthy_date (IsoString t) = True"
| "truthy_date BadString = True"

text \<open>
  The time value of \<^verbatim>\<open>new Date(v)\<close>; \<open>None\<close> is \<^verbatim>\<open>NaN\<close> (an invalid date).
  \<^verbatim>\<open>new Date(null)\<close> is the epoch.
\<close>

fun time_value :: "dateval \<Rightarrow> int option" where
  "time_value DUndefined = None"
| "time_value DNull = Some 0"
| "time_value (DateObj t) = Some t"
| "time_value InvalidDate = None"
| "time_value (IsoString t) = Some t"
| "time_value BadString = None"

text \<open>
  \<^verbatim>\<open>new Date(v) > new Date()\<close> with the clock at \<open>now\<close>: a comparison of the two time
  values, false when the left one is \<^verbatim>\<open>NaN\<close>.
\<close>

definition date_after :: "dateval \<Rightarrow> int \<Rightarrow> bool" where
  "date_after v now = (case time_value v of None \<Rightarrow> False | Some t \<Rightarrow> now < t)"

subsection \<open>The credential record, the cache variable and the cache file\<close>

text \<open>
  The three properties the program reads from \<^verbatim>\<open>tokenCache\<close> and from an MSAL result,
  and writes in the object literals of \<^verbatim>\<open>getAccessToken\<close> and \<^verbatim>\<open>outlook_auth\<close>.
\<close>

record credentials =
  accessToken :: tokval
  refreshToken :: tokval
  expiresOn :: dateval

type_synonym auth_result = credentials

text \<open>
  The variable \<^verbatim>\<open>tokenCache\<close> holds what the last assignment gave it: an object, or
  \<^verbatim>\<open>null\<close> when the cache file held the JSON text \<^verbatim>\<open>null\<close>. Any other JSON value that
  is not an object with these properties reads as an object without them.
\<close>

datatype cachevar = NullValue | Obj credentials

text \<open>The initial value \<^verbatim>\<open>let tokenCache = {}\<close>.\<close>

definition empty_record :: credentials where
  "empty_record = \<lparr>accessToken = Undefined, refreshToken = Undefined, expiresOn = DUndefined\<rparr>"

text \<open>
  The content of an existing cache file is represented by what reading and parsing it
  gives: \<open>Corrupt m\<close> when \<^verbatim>\<open>readFileSync\<close> or \<^verbatim>\<open>JSON.parse\<close> throws on it, \<open>Json v\<close> when
  \<^verbatim>\<open>JSON.parse\<close> returns \<open>v\<close>. A file that does not exist is \<open>None\<close>. The text itself is
  not represented: \<^verbatim>\<open>JSON.parse\<close> and \<^verbatim>\<open>JSON.stringify\<close> belong to the runtime, and the
  program only passes the text from one to the other.

  \<open>m\<close> is the message of the exception that is thrown, in the runtime's words. The
  \<^verbatim>\<open>SyntaxError\<close> of \<^verbatim>\<open>JSON.parse\<close> can quote the text it could not parse.
\<close>

datatype file_content = Corrupt string | Json cachevar

text \<open>
  What \<^verbatim>\<open>JSON.parse\<close> reads back from the text \<^verbatim>\<open>JSON.stringify\<close> writes: a property
  holding \<^verbatim>\<open>undefined\<close> is left out (and reads as \<^verbatim>\<open>undefined\<close> again), \<^verbatim>\<open>null\<close> and
  strings are kept, a \<^verbatim>\<open>Date\<close> is written through its \<^verbatim>\<open>toJSON\<close> as the ISO string of
  the same instant, and an invalid \<^verbatim>\<open>Date\<close>, whose \<^verbatim>\<open>toJSON\<close> is \<^verbatim>\<open>null\<close>, as
  \<^verbatim>\<open>null\<close>.
\<close>

fun json_date :: "dateval \<Rightarrow> dateval" where
  "json_date (DateObj t) = IsoString t"
| "json_date InvalidDate = DNull"
| "json_date v = v"

definition json_record :: "credentials \<Rightarrow> credentials" where
  "json_record c = c\<lparr>expiresOn := json_date (expiresOn c)\<rparr>"

fun json_value :: "cachevar \<Rightarrow> cachevar" where
  "json_value NullValue = NullValue"
| "json_value (Obj c) = Obj (json_record c)"

fun is_date_object :: "dateval \<Rightarrow> bool" where
  "is_date_object (DateObj t) = True"
| "is_date_object InvalidDate = True"
| "is_date_object v = False"

subsection \<open>Effects and program state\<close>

text \<open>
  The calls that leave the process, in the order the program makes them. An MSAL refresh
  carries the refresh token it sends, a code exchange its code.

  \<open>ConsoleErrorWith m e\<close> is the \<^verbatim>\<open>console.error\<close> of \<open>loadTokenCache\<close>: the fixed
  message \<open>m\<close>, then the exception that was caught, which the console prints with its
  message \<open>e\<close>. \<open>ConsoleError m\<close> is one of the two other \<^verbatim>\<open>console.error\<close> calls, with
  the fixed message \<open>m\<close>; their second argument (the exception of \<^verbatim>\<open>writeFileSync\<close>, of
  MSAL, or the \<^verbatim>\<open>TypeError\<close>) is not represented.
\<close>

datatype io =
    ExistsSync
  | ReadFileSync
  | WriteFileSync
  | AcquireTokenByRefreshToken tokval
  | AcquireTokenByCode string
  | GetAuthCodeUrl
  | ConsoleError string
  | ConsoleErrorWith string string

record state =
  tokenCache :: cachevar
  cache_file :: "file_content option"
  trace :: "io list"

definition emit :: "io list \<Rightarrow> state \<Rightarrow> state" where
  "emit evs s = s\<lparr>trace := trace s @ evs\<rparr>"

text \<open>The state of a process that has just started, beside a given cache file.\<close>

definition initial :: "file_content option \<Rightarrow> state" where
  "initial f = \<lparr>tokenCache = Obj empty_record, cache_file = f, trace = []\<rparr>"

text \<open>
  The outcome of one \<^verbatim>\<open>writeFileSync\<close>: it succeeds, or it throws and leaves the file
  as the given content (untouched, truncated or missing).
\<close>

datatype write_outcome = Written | WriteFailed "file_content option"

text \<open>The reasons for which an MSAL token exchange throws.\<close>

datatype exch_error = InvalidGrant | NetworkError | ProviderError

text \<open>
  The exceptions that leave \<^verbatim>\<open>getAccessToken\<close> and the handler of \<^verbatim>\<open>outlook_auth\<close>:
  the one \<^verbatim>\<open>Error\<close> the program throws itself, the \<^verbatim>\<open>TypeError\<close> of a property read
  on \<^verbatim>\<open>null\<close>, and an MSAL exception that nothing catches.
\<close>

datatype error = NoValidAuthentication | TypeError | ExchangeFailed exch_error

subsection \<open>loadTokenCache and saveTokenCache\<close>

definition loadTokenCache :: "state \<Rightarrow> state" where
  "loadTokenCache s =
     (case cache_file s of
        None \<Rightarrow> emit [ExistsSync] s
      | Some (Corrupt m) \<Rightarrow>
          emit [ExistsSync, ReadFileSync, ConsoleErrorWith ''Failed to load token cache:'' m] s
      | Some (Json v) \<Rightarrow> emit [ExistsSync, ReadFileSync] (s\<lparr>tokenCache := v\<rparr>))"

definition saveTokenCache :: "write_outcome \<Rightarrow> state \<Rightarrow> state" where
  "saveTokenCache w s =
     (case w of
        Written \<Rightarrow> emit [WriteFileSync] (s\<lparr>cache_file := Some (Json (json_value (tokenCache s)))\<rparr>)
      | WriteFailed f \<Rightarrow>
          emit [WriteFileSync, ConsoleError ''Failed to save token cache:''] (s\<lparr>cache_file := f\<rparr>))"

subsection \<open>getAccessToken\<close>

text \<open>
  The test of line 77:
  \<^verbatim>\<open>tokenCache.accessToken && tokenCache.expiresOn && new Date(tokenCache.expiresOn) > new Date()\<close>.
\<close>

definition token_valid :: "int \<Rightarrow> credentials \<Rightarrow> bool" where
  "token_valid now c =
     (truthy (accessToken c) \<and> truthy_date (expiresOn c) \<and> date_after (expiresOn c) now)"

text \<open>
  \<^verbatim>\<open>getAccessToken\<close> is an \<^verbatim>\<open>async\<close> function with one \<^verbatim>\<open>await\<close>, on
  \<^verbatim>\<open>msalClient.acquireTokenByRefreshToken\<close>. A call runs without interruption up to the
  \<^verbatim>\<open>await\<close> (\<open>getAccessToken_start\<close>) and, once the exchange has settled, from the
  \<^verbatim>\<open>await\<close> to its end (\<open>getAccessToken_resume\<close>); other calls may run in between.
\<close>

datatype started = Finished "error + tokval" | Suspended

definition getAccessToken_start :: "int \<Rightarrow> state \<Rightarrow> started \<times> state" where
  "getAccessToken_start now s =
     (let s1 = loadTokenCache s in
      case tokenCache s1 of
        NullValue \<Rightarrow> (Finished (Inl TypeError), s1)
      | Obj c \<Rightarrow>
          if token_valid now c then (Finished (Inr (accessToken c)), s1)
          else if truthy (refreshToken c)
               then (Suspended, emit [AcquireTokenByRefreshToken (refreshToken c)] s1)
          else (Finished (Inl NoValidAuthentication), s1))"

text \<open>
  The rest of the \<^verbatim>\<open>try\<close> block. The object literal reads \<^verbatim>\<open>tokenCache.refreshToken\<close>
  after the \<^verbatim>\<open>await\<close>, from the variable as it is then, and only when
  \<^verbatim>\<open>result.refreshToken\<close> is falsy; on \<^verbatim>\<open>null\<close> that read throws inside the \<^verbatim>\<open>try\<close>.
  Every exception is caught, logged, and followed by the \<^verbatim>\<open>throw\<close> of line 101.
\<close>

definition refresh_failed :: "state \<Rightarrow> (error + tokval) \<times> state" where
  "refresh_failed s = (Inl NoValidAuthentication, emit [ConsoleError ''Refresh token failed:''] s)"

definition getAccessToken_resume ::
  "exch_error + auth_result \<Rightarrow> write_outcome \<Rightarrow> state \<Rightarrow> (error + tokval) \<times> state" where
  "getAccessToken_resume outcome w s =
     (case outcome of
        Inl e \<Rightarrow> refresh_failed s
      | Inr result \<Rightarrow>
          if truthy (refreshToken result) then
            (Inr (accessToken result),
             saveTokenCache w (s\<lparr>tokenCache := Obj \<lparr>accessToken = accessToken result,
                refreshToken = refreshToken result, expiresOn = expiresOn result\<rparr>\<rparr>))
          else
            (case tokenCache s of
               NullValue \<Rightarrow> refresh_failed s
             | Obj c \<Rightarrow>
                 (Inr (accessToken result),
                  saveTokenCache w (s\<lparr>tokenCache := Obj \<lparr>accessToken = accessToken result,
                     refreshToken = refreshToken c, expiresOn = expiresOn result\<rparr>\<rparr>))))"

text \<open>One call that nothing interleaves with.\<close>

definition getAccessToken ::
  "int \<Rightarrow> exch_error + auth_result \<Rightarrow> write_outcome \<Rightarrow> state \<Rightarrow> (error + tokval) \<times> state" where
  "getAccessToken now outcome w s =
     (case getAccessToken_start now s of
        (Finished r, s1) \<Rightarrow> (r, s1)
      | (Suspended, s1) \<Rightarrow> getAccessToken_resume outcome w s1)"

text \<open>
  The three outcomes of the two tests of \<^verbatim>\<open>getAccessToken\<close>, in the order the function
  makes them: the cached token is returned, a refresh is attempted, or the call fails at
  once.
\<close>

datatype auth_state = Unauthenticated | Authenticated | NeedsRefresh

definition state_of :: "int \<Rightarrow> credentials \<Rightarrow> auth_state" where
  "state_of now c =
     (if token_valid now c then Authenticated
      else if truthy (refreshToken c) then NeedsRefresh
      else Unauthenticated)"

subsection \<open>Calls in flight together\<close>

text \<open>
  Calls of \<^verbatim>\<open>getAccessToken\<close> made one after the other, each at its own clock reading,
  before any exchange has settled: each runs up to its \<^verbatim>\<open>await\<close> or to its end.
\<close>

fun start_calls :: "int list \<Rightarrow> state \<Rightarrow> started list \<times> state" where
  "start_calls [] s = ([], s)"
| "start_calls (now # ts) s =
     (case getAccessToken_start now s of
        (r, s1) \<Rightarrow> (case start_calls ts s1 of (rs, s2) \<Rightarrow> (r # rs, s2)))"

text \<open>
  The exchanges then settle one after the other, and the call that awaits each one runs
  to its end.
\<close>

fun resume_calls ::
  "((exch_error + auth_result) \<times> write_outcome) list \<Rightarrow> state
     \<Rightarrow> (error + tokval) list \<times> state" where
  "resume_calls [] s = ([], s)"
| "resume_calls ((outcome, w) # rest) s =
     (case getAccessToken_resume outcome w s of
        (r, s1) \<Rightarrow> (case resume_calls rest s1 of (rs, s2) \<Rightarrow> (r # rs, s2)))"

subsection \<open>The handler of outlook_auth\<close>

datatype reply = VisitUrl string | AuthenticationSuccessful

text \<open>
  \<open>authCode\<close> is \<open>None\<close> when the optional parameter is not given; \<^verbatim>\<open>!authCode\<close> also
  holds of the empty string. \<open>authUrl\<close> is what \<^verbatim>\<open>getAuthCodeUrl\<close> resolves to. The
  \<^verbatim>\<open>await\<close> of \<^verbatim>\<open>acquireTokenByCode\<close> is outside any \<^verbatim>\<open>try\<close>: its exception leaves the
  handler.
\<close>

definition outlook_auth ::
  "string option \<Rightarrow> string \<Rightarrow> exch_error + auth_result \<Rightarrow> write_outcome \<Rightarrow> state
     \<Rightarrow> (error + reply) \<times> state" where
  "outlook_auth authCode authUrl outcome w s =
     (case authCode of
        None \<Rightarrow> (Inr (VisitUrl authUrl), emit [GetAuthCodeUrl] s)
      | Some code \<Rightarrow>
          if code = [] then (Inr (VisitUrl authUrl), emit [GetAuthCodeUrl] s)
          else
            (case outcome of
               Inl e \<Rightarrow> (Inl (ExchangeFailed e), emit [AcquireTokenByCode code] s)
             | Inr result \<Rightarrow>
                 (Inr AuthenticationSuccessful,
                  saveTokenCache w ((emit [AcquireTokenByCode code] s)
                    \<lparr>tokenCache := Obj \<lparr>accessToken = accessToken result,
                       refreshToken = refreshToken result, expiresOn = expiresOn result\<rparr>\<rparr>))))"

subsection \<open>Reading the trace\<close>

fun is_refresh :: "io \<Rightarrow> bool" where
  "is_refresh (AcquireTokenByRefreshToken r) = True"
| "is_refresh e = False"

fun is_msal :: "io \<Rightarrow> bool" where
  "is_msal (AcquireTokenByRefreshToken r) = True"
| "is_msal (AcquireTokenByCode c) = True"
| "is_msal GetAuthCodeUrl = True"
| "is_msal e = False"

fun is_fs :: "io \<Rightarrow> bool" where
  "is_fs ExistsSync = True"
| "is_fs ReadFileSync = True"
| "is_fs WriteFileSync = True"
| "is_fs e = False"

text \<open>The refresh-token exchanges, the MSAL calls and the file writes of a trace.\<close>

definition refresh_exchanges :: "io list \<Rightarrow> nat" where
  "refresh_exchanges tr = length (filter is_refresh tr)"

definition msal_calls :: "io list \<Rightarrow> io list" where
  "msal_calls tr = filter is_msal tr"

definition file_writes :: "io list \<Rightarrow> nat" where
  "file_writes tr = length (filter (\<lambda>e. e = WriteFileSync) tr)"

definition fs_calls :: "io list \<Rightarrow> io list" where
  "fs_calls tr = filter is_fs tr"

text \<open>The exception messages that \<open>loadTokenCache\<close> has sent to the console.\<close>

fun logged_exceptions :: "io list \<Rightarrow> string list" where
  "logged_exceptions [] = []"
| "logged_exceptions (ConsoleErrorWith m e # tr) = e # logged_exceptions tr"
| "logged_exceptions (ev # tr) = logged_exceptions tr"

subsection \<open>Example data\<close>

text \<open>
  A clock reading, a record whose access token expired before it, one whose access token
  is valid for an hour more, and two exchange results as MSAL returns them.
\<close>

definition clock0 :: int where
  "clock0 = 1700000000000"

definition expired_record :: credentials where
  "expired_record =
     \<lparr>accessToken = Str ''A0'', refreshToken = Str ''R0'', expiresOn = IsoString 1699999000000\<rparr>"

definition valid_record :: credentials where
  "valid_record =
     \<lparr>accessToken = Str ''A0'', refreshToken = Str ''R0'', expiresOn = IsoString 1700003600000\<rparr>"

definition result1 :: auth_result where
  "result1 =
     \<lparr>accessToken = Str ''A1'', refreshToken = Str ''R1'', expiresOn = DateObj 1700003600000\<rparr>"

definition result2 :: auth_result where
  "result2 =
     \<lparr>accessToken = Str ''A2'', refreshToken = Undefined, expiresOn = DateObj 1700003601000\<rparr>"

text \<open>
  The message of the \<^verbatim>\<open>SyntaxError\<close> that \<^verbatim>\<open>JSON.parse\<close> of Node 20 throws on a cache
  file whose whole text is the access token \<open>A0\<close>, not in JSON form. The message quotes
  the text (its quotation marks are left out here).
\<close>

definition bare_token_message :: string where
  "bare_token_message = ''Unexpected token A, A0 is not valid JSON''"

text \<open>A record whose access token expires \<open>d\<close> milliseconds after the clock reading.\<close>

definition expiring_in :: "int \<Rightarrow> credentials" where
  "expiring_in d =
     \<lparr>accessToken = Str ''A0'', refreshToken = Str ''R0'', expiresOn = IsoString (clock0 + d)\<rparr>"

text \<open>
  A running process that holds the given record, beside a file that holds it too (the
  records used with it have an ISO string as expiry, as a file has).
\<close>

definition holding :: "credentials \<Rightarrow> state" where
  "holding c = \<lparr>tokenCache = Obj c, cache_file = Some (Json (Obj c)), trace = []\<rparr>"

section \<open>Properties\<close>

subsection \<open>Effects of the building blocks\<close>

lemma tokenCache_emit [simp]: "tokenCache (emit evs s) = tokenCache s"
  by (simp add: emit_def)

lemma cache_file_emit [simp]: "cache_file (emit evs s) = cache_file s"
  by (simp add: emit_def)

lemma trace_emit [simp]: "trace (emit evs s) = trace s @ evs"
  by (simp add: emit_def)

lemma tokenCache_load:
  "tokenCache (loadTokenCache s) =
     (case cache_file s of Some (Json v) \<Rightarrow> v | _ \<Rightarrow> tokenCache s)"
  by (simp add: loadTokenCache_def split: option.splits file_content.splits)

lemma cache_file_load [simp]: "cache_file (loadTokenCache s) = cache_file s"
  by (simp add: loadTokenCache_def split: option.splits file_content.splits)

lemma json_date_idem [simp]: "json_date (json_date v) = json_date v"
  by (cases v) simp_all

lemma time_value_json_date:
  "time_value (json_date v) = (if v = InvalidDate then Some 0 else time_value v)"
  by (cases v) simp_all

text \<open>
  The test of \<open>getAccessToken\<close> does not tell a value from the one read back: an
  invalid \<open>Date\<close> is truthy and later than nothing, \<open>null\<close> is falsy.
\<close>

lemma token_valid_json_record: "token_valid now (json_record c) = token_valid now c"
  by (cases "expiresOn c") (simp_all add: token_valid_def json_record_def date_after_def)

lemma json_value_idem [simp]: "json_value (json_value v) = json_value v"
  by (cases v) (simp_all add: json_record_def)

lemma refresh_exchanges_Nil [simp]: "refresh_exchanges [] = 0"
  by (simp add: refresh_exchanges_def)

lemma refresh_exchanges_Cons [simp]:
  "refresh_exchanges (e # tr) = (if is_refresh e then 1 else 0) + refresh_exchanges tr"
  by (simp add: refresh_exchanges_def)

lemma refresh_exchanges_append [simp]:
  "refresh_exchanges (xs @ ys) = refresh_exchanges xs + refresh_exchanges ys"
  by (simp add: refresh_exchanges_def)

lemma refresh_exchanges_load [simp]:
  "refresh_exchanges (trace (loadTokenCache s)) = refresh_exchanges (trace s)"
  by (simp add: loadTokenCache_def split: option.splits file_content.splits)

text \<open>Loading twice from the same file gives what loading once gives.\<close>

lemma tokenCache_load_again:
  "cache_file s' = cache_file s \<Longrightarrow> tokenCache s' = tokenCache (loadTokenCache s) \<Longrightarrow>
     tokenCache (loadTokenCache s') = tokenCache (loadTokenCache s)"
  by (simp add: tokenCache_load split: option.splits file_content.splits)

text \<open>A token that is not valid now is not valid later.\<close>

lemma token_valid_earlier: "token_valid now' c \<Longrightarrow> now \<le> now' \<Longrightarrow> token_valid now c"
  by (auto simp: token_valid_def date_after_def split: option.splits)

lemma needs_refresh_later:
  "state_of now c = NeedsRefresh \<Longrightarrow> now \<le> now' \<Longrightarrow> state_of now' c = NeedsRefresh"
  using token_valid_earlier [of now' c now]
  by (auto simp: state_of_def split: if_splits)

lemma start_needs_refresh:
  "tokenCache (loadTokenCache s) = Obj c \<Longrightarrow> state_of now c = NeedsRefresh \<Longrightarrow>
     getAccessToken_start now s
       = (Suspended, emit [AcquireTokenByRefreshToken (refreshToken c)] (loadTokenCache s))"
  by (simp add: getAccessToken_start_def state_of_def split: if_splits)

text \<open>A refresh that fails, for whatever reason, only adds to the trace.\<close>

lemma refresh_failure:
  "tokenCache (loadTokenCache s) = Obj c \<Longrightarrow> state_of now c = NeedsRefresh \<Longrightarrow>
     getAccessToken now (Inl e) w s
       = (Inl NoValidAuthentication,
          emit [ConsoleError ''Refresh token failed:'']
            (emit [AcquireTokenByRefreshToken (refreshToken c)] (loadTokenCache s)))"
  by (simp add: getAccessToken_def start_needs_refresh getAccessToken_resume_def refresh_failed_def)

lemma refresh_failure_retry:
  assumes l: "tokenCache (loadTokenCache s) = Obj c"
    and n: "state_of now c = NeedsRefresh" and le: "now \<le> now'"
  shows "fst (getAccessToken now (Inl e) w s) = Inl NoValidAuthentication
     \<and> tokenCache (snd (getAccessToken now (Inl e) w s)) = Obj c
     \<and> cache_file (snd (getAccessToken now (Inl e) w s)) = cache_file s
     \<and> state_of now' c = NeedsRefresh
     \<and> getAccessToken_start now' (snd (getAccessToken now (Inl e) w s))
         = (Suspended, emit [AcquireTokenByRefreshToken (refreshToken c)]
              (loadTokenCache (snd (getAccessToken now (Inl e) w s))))
     \<and> refresh_exchanges (trace (snd (getAccessToken now' (Inl e') w'
           (snd (getAccessToken now (Inl e) w s)))))
         = refresh_exchanges (trace s) + 2"
proof -
  let ?s1 = "snd (getAccessToken now (Inl e) w s)"
  have n': "state_of now' c = NeedsRefresh"
    using n le by (rule needs_refresh_later)
  have l1: "tokenCache (loadTokenCache ?s1) = Obj c"
    using tokenCache_load_again [of ?s1 s] by (simp add: refresh_failure [OF l n] l)
  have x1: "refresh_exchanges (trace ?s1) = refresh_exchanges (trace s) + 1"
    by (simp add: refresh_failure [OF l n])
  have x2: "refresh_exchanges (trace (snd (getAccessToken now' (Inl e') w' ?s1)))
      = refresh_exchanges (trace ?s1) + 1"
    by (simp add: refresh_failure [OF l1 n'])
  show ?thesis
    using n' x1 x2 start_needs_refresh [OF l1 n']
    by (simp add: refresh_failure [OF l n] l)
qed

lemma expired_needs_refresh: "state_of clock0 expired_record = NeedsRefresh"
  by (simp add: state_of_def token_valid_def expired_record_def clock0_def date_after_def)

lemma valid_record_valid: "token_valid clock0 valid_record"
  by (simp add: token_valid_def valid_record_def clock0_def date_after_def)

lemma load_holding: "tokenCache (loadTokenCache (holding c)) = Obj c"
  by (simp add: loadTokenCache_def holding_def)

text \<open>The program compares the expiry with the clock itself: there is no margin.\<close>

lemma expiring_state:
  "state_of clock0 (expiring_in d) = (if 0 < d then Authenticated else NeedsRefresh)"
  by (simp add: state_of_def token_valid_def expiring_in_def date_after_def)

subsection \<open>The cache file\<close>

text \<open>
  A cache file that cannot be read or parsed does not make \<open>loadTokenCache\<close> fail: the
  function returns, and the variable \<open>tokenCache\<close> is what it is when the file is
  absent. A process that starts beside such a file is unauthenticated: its first
  \<open>getAccessToken\<close> fails with the error of the missing authentication, as with no file,
  and calls MSAL not at all. The exception goes to the console as it was caught.
\<close>

lemma corrupt_cache_like_absent:
  "tokenCache (loadTokenCache (s\<lparr>cache_file := Some (Corrupt m)\<rparr>))
     = tokenCache (loadTokenCache (s\<lparr>cache_file := None\<rparr>))
   \<and> tokenCache (loadTokenCache (s\<lparr>cache_file := Some (Corrupt m)\<rparr>)) = tokenCache s
   \<and> trace (loadTokenCache (s\<lparr>cache_file := Some (Corrupt m)\<rparr>))
     = trace s @ [ExistsSync, ReadFileSync, ConsoleErrorWith ''Failed to load token cache:'' m]
   \<and> tokenCache (loadTokenCache (initial (Some (Corrupt m)))) = Obj empty_record
   \<and> state_of now empty_record = Unauthenticated
   \<and> fst (getAccessToken now outcome w (initial (Some (Corrupt m)))) = Inl NoValidAuthentication
   \<and> fst (getAccessToken now outcome w (initial None)) = Inl NoValidAuthentication
   \<and> msal_calls (trace (snd (getAccessToken now outcome w (initial (Some (Corrupt m)))))) = []
   \<and> logged_exceptions (trace (snd (getAccessToken now outcome w (initial (Some (Corrupt m))))))
     = [m]"
  by (simp add: loadTokenCache_def initial_def empty_record_def state_of_def token_valid_def
      getAccessToken_def getAccessToken_start_def msal_calls_def)

text \<open>
  C7. The claim holds of the code except in its last part. A process starts beside a
  cache file whose text is the bare access token \<open>A0\<close>, which is not JSON. The first
  \<open>getAccessToken\<close> does not crash on the file: it leaves the empty record in memory, is
  unauthenticated and fails with the error of the missing authentication, without a
  call of MSAL. But \<open>loadTokenCache\<close> hands the exception it caught to \<open>console.error\<close>
  as it is, and the message of that exception quotes the text of the file: the token is
  in the log.
\<close>

theorem corrupt_cache_logs_exception:
  "getAccessToken clock0 (Inl NetworkError) Written (initial (Some (Corrupt bare_token_message)))
     = (Inl NoValidAuthentication,
        \<lparr>tokenCache = Obj empty_record, cache_file = Some (Corrupt bare_token_message),
         trace = [ExistsSync, ReadFileSync,
           ConsoleErrorWith ''Failed to load token cache:''
             ''Unexpected token A, A0 is not valid JSON'']\<rparr>)
   \<and> state_of clock0 empty_record = Unauthenticated
   \<and> logged_exceptions (trace (snd (getAccessToken clock0 (Inl NetworkError) Written
        (initial (Some (Corrupt bare_token_message))))))
     = [''Unexpected token A, A0 is not valid JSON'']"
  by (simp add: loadTokenCache_def initial_def empty_record_def state_of_def token_valid_def
      getAccessToken_def getAccessToken_start_def emit_def bare_token_message_def)

text \<open>
  C8, as the claim states it, fails. After a refresh that succeeds the record in memory
  is the one built from the result of MSAL, whose expiry is a \<open>Date\<close> object, and
  \<open>saveTokenCache\<close> has written it. Loading gives a record whose expiry is a string: it
  is not the record that was saved. An invalid \<open>Date\<close> comes back as \<open>null\<close>.
\<close>

theorem save_load_roundtrip_counterexample:
  "tokenCache (snd (getAccessToken clock0 (Inr result1) Written (holding expired_record)))
     = Obj \<lparr>accessToken = Str ''A1'', refreshToken = Str ''R1'',
            expiresOn = DateObj 1700003600000\<rparr>
   \<and> tokenCache (loadTokenCache
        (snd (getAccessToken clock0 (Inr result1) Written (holding expired_record))))
     = Obj \<lparr>accessToken = Str ''A1'', refreshToken = Str ''R1'',
            expiresOn = IsoString 1700003600000\<rparr>
   \<and> tokenCache (loadTokenCache (saveTokenCache Written
        ((initial None)\<lparr>tokenCache := Obj result1\<rparr>)))
     \<noteq> Obj result1
   \<and> tokenCache (loadTokenCache (saveTokenCache Written
        ((initial None)\<lparr>tokenCache := Obj (result1\<lparr>expiresOn := InvalidDate\<rparr>)\<rparr>)))
     = Obj (result1\<lparr>expiresOn := DNull\<rparr>)"
  by (simp add: state_of_def token_valid_def expired_record_def date_after_def holding_def
      getAccessToken_def getAccessToken_start_def getAccessToken_resume_def saveTokenCache_def
      loadTokenCache_def emit_def clock0_def result1_def initial_def json_record_def)

text \<open>
  C8, amended. When the write succeeds, saving a record and loading it again gives the
  record that \<open>JSON.stringify\<close> wrote. Its access token and its refresh token are the
  values that were saved. Its expiry is the instant that was saved, but for an invalid
  \<open>Date\<close>, which comes back as \<open>null\<close>; the test of \<open>getAccessToken\<close> finds the token
  valid after the round trip exactly when it did before, and the state is the same.
  The record comes back equal, property by property, exactly when its expiry is not a
  \<open>Date\<close> object: so does every record that was read from a file, and the record
  without any property.
\<close>

theorem save_load_same_tokens_same_expiry:
  "tokenCache (loadTokenCache (saveTokenCache Written (s\<lparr>tokenCache := Obj c\<rparr>)))
     = Obj (json_record c)
   \<and> accessToken (json_record c) = accessToken c
   \<and> refreshToken (json_record c) = refreshToken c
   \<and> time_value (expiresOn (json_record c))
     = (if expiresOn c = InvalidDate then Some 0 else time_value (expiresOn c))
   \<and> token_valid now (json_record c) = token_valid now c
   \<and> state_of now (json_record c) = state_of now c
   \<and> (json_record c = c) = (\<not> is_date_object (expiresOn c))
   \<and> json_record (json_record c) = json_record c
   \<and> tokenCache (loadTokenCache (saveTokenCache Written (s\<lparr>tokenCache := Obj empty_record\<rparr>)))
     = Obj empty_record"
proof -
  have eq: "(json_record c = c) = (\<not> is_date_object (expiresOn c))"
  proof (cases "expiresOn c")
    case (DateObj t)
    then have "expiresOn (json_record c) \<noteq> expiresOn c"
      by (simp add: json_record_def)
    with DateObj show ?thesis by auto
  next
    case InvalidDate
    then have "expiresOn (json_record c) \<noteq> expiresOn c"
      by (simp add: json_record_def)
    with InvalidDate show ?thesis by auto
  qed (simp_all add: json_record_def)
  have tv: "time_value (expiresOn (json_record c))
      = (if expiresOn c = InvalidDate then Some 0 else time_value (expiresOn c))"
    by (simp add: json_record_def time_value_json_date)
  have st: "state_of now (json_record c) = state_of now c"
    by (simp add: state_of_def token_valid_json_record) (simp add: json_record_def)
  have idem: "json_record (json_record c) = json_record c"
    by (simp add: json_record_def)
  have load: "\<And>r. tokenCache (loadTokenCache (saveTokenCache Written (s\<lparr>tokenCache := Obj r\<rparr>)))
      = Obj (json_record r)"
    by (simp add: loadTokenCache_def saveTokenCache_def)
  have empty: "json_record empty_record = empty_record"
    by (simp add: json_record_def empty_record_def)
  show ?thesis
    using eq tv st idem load [of c] load [of empty_record] empty token_valid_json_record [of now c]
    by (simp add: json_record_def)
qed

text \<open>
  C9. When the cache file exists and cannot be read or parsed, \<open>loadTokenCache\<close> leaves
  the variable \<open>tokenCache\<close> as it was. So a token held in memory that is still valid is
  returned by \<open>getAccessToken\<close>, which leaves the record in memory and calls MSAL not at
  all.
\<close>

theorem corrupt_file_keeps_memory:
  "cache_file s = Some (Corrupt m) \<Longrightarrow>
     tokenCache (loadTokenCache s) = tokenCache s
     \<and> (tokenCache s = Obj c \<and> token_valid now c \<longrightarrow>
          fst (getAccessToken now outcome w s) = Inr (accessToken c)
          \<and> tokenCache (snd (getAccessToken now outcome w s)) = Obj c
          \<and> msal_calls (trace (snd (getAccessToken now outcome w s))) = msal_calls (trace s))"
  by (simp add: loadTokenCache_def getAccessToken_def getAccessToken_start_def msal_calls_def)

theorem corrupt_file_keeps_memory_witness:
  "cache_file ((holding valid_record)\<lparr>cache_file := Some (Corrupt ''Unexpected end of JSON input'')\<rparr>)
     = Some (Corrupt ''Unexpected end of JSON input'')
   \<and> token_valid clock0 valid_record
   \<and> tokenCache (loadTokenCache
        ((holding valid_record)\<lparr>cache_file := Some (Corrupt ''Unexpected end of JSON input'')\<rparr>))
       = Obj valid_record
   \<and> fst (getAccessToken clock0 (Inl NetworkError) Written
        ((holding valid_record)\<lparr>cache_file := Some (Corrupt ''Unexpected end of JSON input'')\<rparr>))
       = Inr (Str ''A0'')
   \<and> tokenCache (snd (getAccessToken clock0 (Inl NetworkError) Written
        ((holding valid_record)\<lparr>cache_file := Some (Corrupt ''Unexpected end of JSON input'')\<rparr>)))
       = Obj valid_record
   \<and> msal_calls (trace (snd (getAccessToken clock0 (Inl NetworkError) Written
        ((holding valid_record)\<lparr>cache_file := Some (Corrupt ''Unexpected end of JSON input'')\<rparr>))))
       = []"
proof -
  let ?s = "(holding valid_record)\<lparr>cache_file := Some (Corrupt ''Unexpected end of JSON input'')\<rparr>"
  have v: "token_valid clock0 valid_record"
    by (simp add: token_valid_def valid_record_def clock0_def date_after_def)
  have f: "cache_file ?s = Some (Corrupt ''Unexpected end of JSON input'')"
    by simp
  have t: "tokenCache ?s = Obj valid_record"
    by (simp add: holding_def)
  have m: "msal_calls (trace ?s) = []"
    by (simp add: holding_def msal_calls_def)
  show ?thesis
    using corrupt_file_keeps_memory [OF f, of valid_record clock0 "Inl NetworkError" Written] v t m
    by (simp add: valid_record_def)
qed

subsection \<open>getAccessToken, one call at a time\<close>

text \<open>
  C2. The claim asks for a margin of five minutes: a token that expires in exactly five
  minutes, or in one second less, is to be refreshed. The program has no margin. At the
  clock reading \<open>clock0\<close>, a record that expires 300000 ms later, and one that expires
  299000 ms later, are both classified as authenticated, and \<open>getAccessToken\<close> returns
  the cached token \<open>A0\<close> after reading the file, with no refresh. Only the third part of
  the claim holds: 301000 ms before the expiry the record is authenticated.
\<close>

theorem margin_failing_input:
  "state_of clock0 (expiring_in 300000) = Authenticated
   \<and> state_of clock0 (expiring_in 299000) = Authenticated
   \<and> state_of clock0 (expiring_in 301000) = Authenticated
   \<and> getAccessToken clock0 (Inr result1) Written (holding (expiring_in 300000))
       = (Inr (Str ''A0''), (holding (expiring_in 300000))\<lparr>trace := [ExistsSync, ReadFileSync]\<rparr>)
   \<and> getAccessToken clock0 (Inr result1) Written (holding (expiring_in 299000))
       = (Inr (Str ''A0''), (holding (expiring_in 299000))\<lparr>trace := [ExistsSync, ReadFileSync]\<rparr>)"
  by (simp add: state_of_def token_valid_def expiring_in_def date_after_def holding_def
      getAccessToken_def getAccessToken_start_def loadTokenCache_def emit_def clock0_def)

text \<open>
  C3, as the claim states it, fails. The process holds an expired access token and the
  refresh token \<open>R0\<close>. The exchange fails with an invalid grant and \<open>getAccessToken\<close>
  fails with the error of the missing authentication; but the record is untouched, its
  state is still the one that needs a refresh, and the next call sends \<open>R0\<close> to MSAL
  again: the trace then holds two exchanges.
\<close>

theorem invalid_grant_counterexample:
  "state_of clock0 expired_record = NeedsRefresh
   \<and> getAccessToken clock0 (Inl InvalidGrant) Written (holding expired_record)
       = (Inl NoValidAuthentication,
          (holding expired_record)\<lparr>trace := [ExistsSync, ReadFileSync,
             AcquireTokenByRefreshToken (Str ''R0''), ConsoleError ''Refresh token failed:'']\<rparr>)
   \<and> state_of (clock0 + 1000) expired_record \<noteq> Unauthenticated
   \<and> trace (snd (getAccessToken (clock0 + 1000) (Inl InvalidGrant) Written
        (snd (getAccessToken clock0 (Inl InvalidGrant) Written (holding expired_record)))))
       = [ExistsSync, ReadFileSync,
          AcquireTokenByRefreshToken (Str ''R0''), ConsoleError ''Refresh token failed:'',
          ExistsSync, ReadFileSync,
          AcquireTokenByRefreshToken (Str ''R0''), ConsoleError ''Refresh token failed:'']"
  by (simp add: state_of_def token_valid_def expired_record_def date_after_def holding_def
      getAccessToken_def getAccessToken_start_def getAccessToken_resume_def refresh_failed_def
      loadTokenCache_def emit_def clock0_def)

text \<open>
  C3, amended. When the record after the reload needs a refresh and the exchange fails
  with an invalid grant, \<open>getAccessToken\<close> fails with the error of the missing
  authentication and leaves the record in memory and the cache file as they are: the
  refresh token is still there and the state is still the one that needs a refresh. A
  later call starts another exchange with the same refresh token.
\<close>

theorem invalid_grant_keeps_refresh_token:
  "tokenCache (loadTokenCache s) = Obj c \<Longrightarrow> state_of now c = NeedsRefresh \<Longrightarrow> now \<le> now' \<Longrightarrow>
     fst (getAccessToken now (Inl InvalidGrant) w s) = Inl NoValidAuthentication
     \<and> tokenCache (snd (getAccessToken now (Inl InvalidGrant) w s)) = Obj c
     \<and> cache_file (snd (getAccessToken now (Inl InvalidGrant) w s)) = cache_file s
     \<and> state_of now' c = NeedsRefresh
     \<and> getAccessToken_start now' (snd (getAccessToken now (Inl InvalidGrant) w s))
         = (Suspended, emit [AcquireTokenByRefreshToken (refreshToken c)]
              (loadTokenCache (snd (getAccessToken now (Inl InvalidGrant) w s))))
     \<and> refresh_exchanges (trace (snd (getAccessToken now' (Inl InvalidGrant) w'
           (snd (getAccessToken now (Inl InvalidGrant) w s)))))
         = refresh_exchanges (trace s) + 2"
  by (rule refresh_failure_retry)

theorem invalid_grant_keeps_refresh_token_witness:
  "tokenCache (loadTokenCache (holding expired_record)) = Obj expired_record
   \<and> state_of clock0 expired_record = NeedsRefresh
   \<and> clock0 \<le> clock0 + 1000
   \<and> fst (getAccessToken clock0 (Inl InvalidGrant) Written (holding expired_record))
       = Inl NoValidAuthentication
   \<and> tokenCache (snd (getAccessToken clock0 (Inl InvalidGrant) Written (holding expired_record)))
       = Obj expired_record
   \<and> fst (getAccessToken_start (clock0 + 1000)
        (snd (getAccessToken clock0 (Inl InvalidGrant) Written (holding expired_record))))
       = Suspended
   \<and> refresh_exchanges (trace (snd (getAccessToken (clock0 + 1000) (Inl InvalidGrant) Written
        (snd (getAccessToken clock0 (Inl InvalidGrant) Written (holding expired_record))))))
       = 2"
proof -
  have le: "clock0 \<le> clock0 + 1000" by simp
  have t: "refresh_exchanges (trace (holding expired_record)) = 0"
    by (simp add: holding_def)
  show ?thesis
    using invalid_grant_keeps_refresh_token [OF load_holding expired_needs_refresh le,
        of Written Written] load_holding [of expired_record] expired_needs_refresh t
    by simp
qed

text \<open>
  C4, as the claim states it, fails. The exchange fails because the network is down. The
  error that leaves \<open>getAccessToken\<close> is the one it gives when the exchange fails with an
  invalid grant, and the one it gives to a process that holds no credentials at all:
  the caller cannot tell a failure that will pass from a missing authentication.
\<close>

theorem temporary_failure_counterexample:
  "state_of clock0 expired_record = NeedsRefresh
   \<and> state_of clock0 empty_record = Unauthenticated
   \<and> fst (getAccessToken clock0 (Inl NetworkError) Written (holding expired_record))
       = Inl NoValidAuthentication
   \<and> fst (getAccessToken clock0 (Inl NetworkError) Written (holding expired_record))
       = fst (getAccessToken clock0 (Inl NetworkError) Written (initial None))
   \<and> fst (getAccessToken clock0 (Inl NetworkError) Written (holding expired_record))
       = fst (getAccessToken clock0 (Inl InvalidGrant) Written (holding expired_record))"
  by (simp add: state_of_def token_valid_def expired_record_def date_after_def holding_def
      getAccessToken_def getAccessToken_start_def getAccessToken_resume_def refresh_failed_def
      loadTokenCache_def emit_def clock0_def initial_def empty_record_def)

text \<open>
  C4, amended. When the record after the reload needs a refresh and the exchange fails
  for a reason other than an invalid grant, \<open>getAccessToken\<close> fails with the same error
  of the missing authentication that every other failure gives. The record in memory and
  the cache file are as they were, the state is still the one that needs a refresh, and
  a later call starts the exchange again.
\<close>

theorem transient_failure_same_error:
  "tokenCache (loadTokenCache s) = Obj c \<Longrightarrow> state_of now c = NeedsRefresh \<Longrightarrow> now \<le> now' \<Longrightarrow>
   e \<noteq> InvalidGrant \<Longrightarrow>
     fst (getAccessToken now (Inl e) w s) = Inl NoValidAuthentication
     \<and> fst (getAccessToken now (Inl e) w s) = fst (getAccessToken now (Inl InvalidGrant) w s)
     \<and> fst (getAccessToken now (Inl e) w s) = fst (getAccessToken now outcome w (initial None))
     \<and> tokenCache (snd (getAccessToken now (Inl e) w s)) = Obj c
     \<and> cache_file (snd (getAccessToken now (Inl e) w s)) = cache_file s
     \<and> state_of now' c = NeedsRefresh
     \<and> getAccessToken_start now' (snd (getAccessToken now (Inl e) w s))
         = (Suspended, emit [AcquireTokenByRefreshToken (refreshToken c)]
              (loadTokenCache (snd (getAccessToken now (Inl e) w s))))"
proof -
  assume l: "tokenCache (loadTokenCache s) = Obj c"
    and n: "state_of now c = NeedsRefresh" and le: "now \<le> now'"
  have u: "fst (getAccessToken now outcome w (initial None)) = Inl NoValidAuthentication"
    by (simp add: getAccessToken_def getAccessToken_start_def loadTokenCache_def initial_def
        empty_record_def token_valid_def)
  show ?thesis
    using refresh_failure_retry [OF l n le, of e w] u
    by (simp add: refresh_failure [OF l n])
qed

theorem transient_failure_same_error_witness:
  "tokenCache (loadTokenCache (holding expired_record)) = Obj expired_record
   \<and> state_of clock0 expired_record = NeedsRefresh
   \<and> clock0 \<le> clock0 + 1000
   \<and> NetworkError \<noteq> InvalidGrant
   \<and> fst (getAccessToken clock0 (Inl NetworkError) Written (holding expired_record))
       = Inl NoValidAuthentication
   \<and> tokenCache (snd (getAccessToken clock0 (Inl NetworkError) Written (holding expired_record)))
       = Obj expired_record
   \<and> fst (getAccessToken_start (clock0 + 1000)
        (snd (getAccessToken clock0 (Inl NetworkError) Written (holding expired_record))))
       = Suspended"
proof -
  have le: "clock0 \<le> clock0 + 1000" by simp
  have ne: "NetworkError \<noteq> InvalidGrant" by simp
  show ?thesis
    using transient_failure_same_error [OF load_holding expired_needs_refresh le ne,
        of Written "Inl NetworkError"] load_holding [of expired_record] expired_needs_refresh
    by simp
qed

text \<open>
  C5, as the claim states it, fails. The record in memory holds an access token that is
  valid for an hour more. With the same record in the file, \<open>getAccessToken\<close> returns the
  token, but it has asked whether the file exists and has read it. With a file that
  holds \<open>{}\<close> instead, the call replaces the record in memory with the empty one and
  fails.
\<close>

theorem fast_path_no_io_counterexample:
  "token_valid clock0 valid_record
   \<and> trace (holding valid_record) = []
   \<and> fst (getAccessToken clock0 (Inl NetworkError) Written (holding valid_record)) = Inr (Str ''A0'')
   \<and> trace (snd (getAccessToken clock0 (Inl NetworkError) Written (holding valid_record)))
       = [ExistsSync, ReadFileSync]
   \<and> tokenCache ((holding valid_record)\<lparr>cache_file := Some (Json (Obj empty_record))\<rparr>)
       = Obj valid_record
   \<and> getAccessToken clock0 (Inl NetworkError) Written
        ((holding valid_record)\<lparr>cache_file := Some (Json (Obj empty_record))\<rparr>)
       = (Inl NoValidAuthentication,
          \<lparr>tokenCache = Obj empty_record, cache_file = Some (Json (Obj empty_record)),
           trace = [ExistsSync, ReadFileSync]\<rparr>)"
  by (simp add: token_valid_def valid_record_def clock0_def date_after_def holding_def
      getAccessToken_def getAccessToken_start_def loadTokenCache_def empty_record_def emit_def)

text \<open>
  C5, amended. \<open>getAccessToken\<close> first reloads the cache file. When the record in memory
  after that reload holds an access token that has not expired, the call returns that
  token and does nothing more: it calls MSAL not at all and writes no file. Its effects
  are those of the reload: it asks whether the file exists, reads it when it does, and
  replaces the record in memory with the content of a file that parses.
\<close>

theorem valid_token_after_reload:
  "tokenCache (loadTokenCache s) = Obj c \<Longrightarrow> token_valid now c \<Longrightarrow>
     getAccessToken now outcome w s = (Inr (accessToken c), loadTokenCache s)
     \<and> msal_calls (trace (loadTokenCache s)) = msal_calls (trace s)
     \<and> file_writes (trace (loadTokenCache s)) = file_writes (trace s)
     \<and> cache_file (loadTokenCache s) = cache_file s
     \<and> fs_calls (trace (loadTokenCache s))
         = fs_calls (trace s) @ (if cache_file s = None then [ExistsSync] else [ExistsSync, ReadFileSync])"
  by (simp add: getAccessToken_def getAccessToken_start_def)
     (simp add: loadTokenCache_def msal_calls_def file_writes_def fs_calls_def
        split: option.splits file_content.splits)

theorem valid_token_after_reload_witness:
  "tokenCache (loadTokenCache (holding valid_record)) = Obj valid_record
   \<and> token_valid clock0 valid_record
   \<and> getAccessToken clock0 (Inl NetworkError) Written (holding valid_record)
       = (Inr (Str ''A0''), loadTokenCache (holding valid_record))
   \<and> msal_calls (trace (loadTokenCache (holding valid_record))) = []
   \<and> file_writes (trace (loadTokenCache (holding valid_record))) = 0
   \<and> fs_calls (trace (loadTokenCache (holding valid_record))) = [ExistsSync, ReadFileSync]"
  using valid_token_after_reload [OF load_holding valid_record_valid, of "Inl NetworkError" Written]
    load_holding [of valid_record] valid_record_valid
  by (simp add: holding_def valid_record_def msal_calls_def file_writes_def fs_calls_def)

text \<open>
  C6. After a refresh that succeeds, the record in memory is built from the result of
  the exchange alone: its access token and its expiry are those of the result, whatever
  the record held before. The one property taken from the old record is the refresh
  token, and only when the result carries none (\<open>undefined\<close>, \<open>null\<close> or the empty
  string, which \<open>||\<close> treats alike). When the write succeeds the file holds that record.
\<close>

theorem refresh_replaces_record:
  "tokenCache (loadTokenCache s) = Obj c \<Longrightarrow> state_of now c = NeedsRefresh \<Longrightarrow>
     fst (getAccessToken now (Inr result) w s) = Inr (accessToken result)
     \<and> tokenCache (snd (getAccessToken now (Inr result) w s))
         = Obj \<lparr>accessToken = accessToken result,
                refreshToken = (if truthy (refreshToken result) then refreshToken result
                                else refreshToken c),
                expiresOn = expiresOn result\<rparr>
     \<and> cache_file (snd (getAccessToken now (Inr result) Written s))
         = Some (Json (Obj \<lparr>accessToken = accessToken result,
                refreshToken = (if truthy (refreshToken result) then refreshToken result
                                else refreshToken c),
                expiresOn = json_date (expiresOn result)\<rparr>))"
  by (simp add: getAccessToken_def getAccessToken_start_def state_of_def
      getAccessToken_resume_def saveTokenCache_def json_record_def
      split: if_splits write_outcome.splits)

theorem refresh_replaces_record_witness:
  "tokenCache (loadTokenCache (holding expired_record)) = Obj expired_record
   \<and> state_of clock0 expired_record = NeedsRefresh
   \<and> fst (getAccessToken clock0 (Inr result2) Written (holding expired_record)) = Inr (Str ''A2'')
   \<and> tokenCache (snd (getAccessToken clock0 (Inr result2) Written (holding expired_record)))
       = Obj \<lparr>accessToken = Str ''A2'', refreshToken = Str ''R0'',
              expiresOn = DateObj 1700003601000\<rparr>
   \<and> cache_file (snd (getAccessToken clock0 (Inr result2) Written (holding expired_record)))
       = Some (Json (Obj \<lparr>accessToken = Str ''A2'', refreshToken = Str ''R0'',
              expiresOn = IsoString 1700003601000\<rparr>))"
  using refresh_replaces_record [OF load_holding expired_needs_refresh, of result2 Written]
    load_holding [of expired_record] expired_needs_refresh
  by (simp add: result2_def expired_record_def)

subsection \<open>getAccessToken, several calls in flight\<close>

text \<open>Helper facts on calls that start, and on calls that resume, one after the other.\<close>

lemma start_calls_needs_refresh:
  "tokenCache (loadTokenCache s) = Obj c \<Longrightarrow> \<forall>now \<in> set ts. state_of now c = NeedsRefresh \<Longrightarrow>
     fst (start_calls ts s) = replicate (length ts) Suspended
     \<and> refresh_exchanges (trace (snd (start_calls ts s))) = refresh_exchanges (trace s) + length ts
     \<and> cache_file (snd (start_calls ts s)) = cache_file s
     \<and> tokenCache (loadTokenCache (snd (start_calls ts s))) = Obj c
     \<and> (ts \<noteq> [] \<longrightarrow> tokenCache (snd (start_calls ts s)) = Obj c)"
proof (induction ts arbitrary: s)
  case Nil
  then show ?case by simp
next
  case (Cons now ts)
  let ?s1 = "emit [AcquireTokenByRefreshToken (refreshToken c)] (loadTokenCache s)"
  have st: "getAccessToken_start now s = (Suspended, ?s1)"
    using Cons.prems by (simp add: start_needs_refresh)
  have l1: "tokenCache (loadTokenCache ?s1) = Obj c"
    using tokenCache_load_again [of ?s1 s] Cons.prems(1) by simp
  have t1: "tokenCache ?s1 = Obj c"
    using Cons.prems(1) by simp
  have ih: "fst (start_calls ts ?s1) = replicate (length ts) Suspended
     \<and> refresh_exchanges (trace (snd (start_calls ts ?s1))) = refresh_exchanges (trace ?s1) + length ts
     \<and> cache_file (snd (start_calls ts ?s1)) = cache_file ?s1
     \<and> tokenCache (loadTokenCache (snd (start_calls ts ?s1))) = Obj c
     \<and> (ts \<noteq> [] \<longrightarrow> tokenCache (snd (start_calls ts ?s1)) = Obj c)"
    using Cons.IH [OF l1] Cons.prems(2) by simp
  show ?case
  proof (cases "ts = []")
    case True
    then show ?thesis using st l1 t1 by (simp add: split_beta)
  next
    case False
    then show ?thesis using st ih by (simp add: split_beta)
  qed
qed

lemma resume_keeps_object:
  "tokenCache s \<noteq> NullValue \<Longrightarrow> tokenCache (snd (getAccessToken_resume outcome w s)) \<noteq> NullValue"
  by (cases "tokenCache s")
     (simp_all add: getAccessToken_resume_def refresh_failed_def saveTokenCache_def
        split: sum.splits write_outcome.splits)

lemma resume_own_outcome:
  "tokenCache s \<noteq> NullValue \<Longrightarrow>
     fst (getAccessToken_resume outcome w s)
       = (case outcome of Inl e \<Rightarrow> Inl NoValidAuthentication | Inr r \<Rightarrow> Inr (accessToken r))"
  by (cases "tokenCache s")
     (simp_all add: getAccessToken_resume_def refresh_failed_def split: sum.splits)

lemma resume_no_exchange:
  "refresh_exchanges (trace (snd (getAccessToken_resume outcome w s))) = refresh_exchanges (trace s)"
  by (simp add: getAccessToken_resume_def refresh_failed_def saveTokenCache_def
        split: sum.splits write_outcome.splits cachevar.splits)

lemma resume_calls_own_outcomes:
  "tokenCache s \<noteq> NullValue \<Longrightarrow>
     fst (resume_calls outs s)
       = map (\<lambda>(outcome, w). case outcome of Inl e \<Rightarrow> Inl NoValidAuthentication
                                           | Inr r \<Rightarrow> Inr (accessToken r)) outs
     \<and> refresh_exchanges (trace (snd (resume_calls outs s))) = refresh_exchanges (trace s)"
proof (induction outs arbitrary: s)
  case Nil
  then show ?case by simp
next
  case (Cons a outs)
  obtain outcome w where a: "a = (outcome, w)" by (cases a)
  show ?case
    using Cons.IH [OF resume_keeps_object [OF Cons.prems, of outcome w]]
      resume_own_outcome [OF Cons.prems, of outcome w] resume_no_exchange [of outcome w s]
    by (simp add: a split_beta)
qed

text \<open>
  C1, as the claim states it, fails. Two calls are made while the record needs a
  refresh, the second before the exchange of the first has settled. Both reach their
  \<open>await\<close>: the trace holds two exchanges, both with the refresh token \<open>R0\<close>. When the
  exchanges settle, the first caller gets the token \<open>A1\<close> of the first exchange and the
  second caller the token \<open>A2\<close> of the second.
\<close>

theorem single_exchange_counterexample:
  "state_of clock0 expired_record = NeedsRefresh
   \<and> start_calls [clock0, clock0 + 1] (holding expired_record)
       = ([Suspended, Suspended],
          (holding expired_record)\<lparr>trace := [ExistsSync, ReadFileSync,
             AcquireTokenByRefreshToken (Str ''R0''), ExistsSync, ReadFileSync,
             AcquireTokenByRefreshToken (Str ''R0'')]\<rparr>)
   \<and> refresh_exchanges (trace (snd (start_calls [clock0, clock0 + 1] (holding expired_record)))) = 2
   \<and> fst (resume_calls [(Inr result1, Written), (Inr result2, Written)]
        (snd (start_calls [clock0, clock0 + 1] (holding expired_record))))
       = [Inr (Str ''A1''), Inr (Str ''A2'')]"
  by (simp add: state_of_def token_valid_def expired_record_def date_after_def holding_def
      getAccessToken_start_def getAccessToken_resume_def saveTokenCache_def
      loadTokenCache_def emit_def clock0_def result1_def result2_def)

text \<open>
  C1, amended. The program has no guard on an exchange in flight. When the record after
  the reload needs a refresh at the clock reading of each call, each of the calls made
  before any exchange settles starts an exchange of its own, as many exchanges as calls,
  and the calls start none after that. Each caller then gets the outcome of its own
  exchange: the access token of its result, or the error of the missing authentication
  when its exchange failed.
\<close>

theorem concurrent_calls_each_exchange:
  "tokenCache (loadTokenCache s) = Obj c \<Longrightarrow> \<forall>now \<in> set ts. state_of now c = NeedsRefresh \<Longrightarrow>
   length outs = length ts \<Longrightarrow>
     fst (start_calls ts s) = replicate (length ts) Suspended
     \<and> refresh_exchanges (trace (snd (start_calls ts s))) = refresh_exchanges (trace s) + length ts
     \<and> fst (resume_calls outs (snd (start_calls ts s)))
         = map (\<lambda>(outcome, w). case outcome of Inl e \<Rightarrow> Inl NoValidAuthentication
                                             | Inr r \<Rightarrow> Inr (accessToken r)) outs
     \<and> refresh_exchanges (trace (snd (resume_calls outs (snd (start_calls ts s)))))
         = refresh_exchanges (trace s) + length ts"
proof (cases "ts = []")
  case True
  assume "length outs = length ts"
  with True show ?thesis by simp
next
  case False
  assume l: "tokenCache (loadTokenCache s) = Obj c"
    and n: "\<forall>now \<in> set ts. state_of now c = NeedsRefresh"
  have s: "fst (start_calls ts s) = replicate (length ts) Suspended
     \<and> refresh_exchanges (trace (snd (start_calls ts s))) = refresh_exchanges (trace s) + length ts
     \<and> tokenCache (snd (start_calls ts s)) = Obj c"
    using start_calls_needs_refresh [OF l n] False by simp
  then have "tokenCache (snd (start_calls ts s)) \<noteq> NullValue" by simp
  from resume_calls_own_outcomes [OF this, of outs] s show ?thesis by simp
qed

theorem concurrent_calls_each_exchange_witness:
  "tokenCache (loadTokenCache (holding expired_record)) = Obj expired_record
   \<and> state_of clock0 expired_record = NeedsRefresh
   \<and> state_of (clock0 + 1) expired_record = NeedsRefresh
   \<and> length [(Inr result1, Written), (Inl NetworkError, Written)] = length [clock0, clock0 + 1]
   \<and> fst (start_calls [clock0, clock0 + 1] (holding expired_record)) = [Suspended, Suspended]
   \<and> refresh_exchanges (trace (snd (start_calls [clock0, clock0 + 1] (holding expired_record)))) = 2
   \<and> fst (resume_calls [(Inr result1, Written), (Inl NetworkError, Written)]
        (snd (start_calls [clock0, clock0 + 1] (holding expired_record))))
       = [Inr (Str ''A1''), Inl NoValidAuthentication]"
proof -
  have n: "\<forall>now \<in> set [clock0, clock0 + 1]. state_of now expired_record = NeedsRefresh"
    using needs_refresh_later [OF expired_needs_refresh, of "clock0 + 1"]
    by (simp add: expired_needs_refresh)
  have len: "length [(Inr result1, Written), (Inl NetworkError, Written)] = length [clock0, clock0 + 1]"
    by simp
  have t: "refresh_exchanges (trace (holding expired_record)) = 0"
    by (simp add: holding_def)
  show ?thesis
    using concurrent_calls_each_exchange [OF load_holding n len] n t
      load_holding [of expired_record]
    by (simp add: result1_def)
qed

subsection \<open>The authorization code\<close>

text \<open>
  C10. When \<open>outlook_auth\<close> is called with a code and the exchange succeeds, the record in
  memory is built from the result of the exchange alone, the refresh token included:
  nothing of the old record is kept. A result without a refresh token leaves the record
  without one, even when the old record had one. When the write succeeds the file holds
  that record.
\<close>

theorem auth_code_overwrites_record:
  "code \<noteq> [] \<Longrightarrow>
     fst (outlook_auth (Some code) authUrl (Inr result) w s) = Inr AuthenticationSuccessful
     \<and> tokenCache (snd (outlook_auth (Some code) authUrl (Inr result) w s))
         = Obj \<lparr>accessToken = accessToken result, refreshToken = refreshToken result,
                expiresOn = expiresOn result\<rparr>
     \<and> cache_file (snd (outlook_auth (Some code) authUrl (Inr result) Written s))
         = Some (Json (Obj \<lparr>accessToken = accessToken result,
                refreshToken = refreshToken result,
                expiresOn = json_date (expiresOn result)\<rparr>))"
  by (simp add: outlook_auth_def saveTokenCache_def json_record_def split: write_outcome.splits)

theorem auth_code_overwrites_record_witness:
  "''validcode'' \<noteq> []
   \<and> tokenCache (holding valid_record) = Obj valid_record
   \<and> refreshToken valid_record = Str ''R0''
   \<and> refreshToken result2 = Undefined
   \<and> tokenCache (snd (outlook_auth (Some ''validcode'') ''url'' (Inr result2) Written
        (holding valid_record)))
       = Obj \<lparr>accessToken = Str ''A2'', refreshToken = Undefined,
              expiresOn = DateObj 1700003601000\<rparr>
   \<and> cache_file (snd (outlook_auth (Some ''validcode'') ''url'' (Inr result2) Written
        (holding valid_record)))
       = Some (Json (Obj \<lparr>accessToken = Str ''A2'', refreshToken = Undefined,
              expiresOn = IsoString 1700003601000\<rparr>))"
proof -
  have c: "''validcode'' \<noteq> []" by simp
  show ?thesis
    using auth_code_overwrites_record [OF c, of "''url''" result2 Written "holding valid_record"]
    by (simp add: result2_def valid_record_def holding_def)
qed

end
